theory Spec2Isabelle
  imports Complex_Main
begin

section \<open>The document tree and its query interface\<close>

text \<open>
  \<^verbatim>\<open>core.py\<close> never touches raw bytes: it works on the tree that BeautifulSoup hands
  back. A node is either a run of text or a tag with a name, an attribute dictionary and
  its contents in document order. The soup object itself is the list of top-level nodes.
  Attribute dictionaries of an XML tree have unique keys, so an association list read
  with \<open>map_of\<close> is the dictionary.
\<close>

datatype node = Text string | Tag string "(string \<times> string) list" "node list"

type_synonym soup = "node list"

fun tag_name :: "node \<Rightarrow> string" where
  "tag_name (Tag n a cs) = n"
| "tag_name (Text t) = []"

fun tag_attrs :: "node \<Rightarrow> (string \<times> string) list" where
  "tag_attrs (Tag n a cs) = a"
| "tag_attrs (Text t) = []"

fun tag_contents :: "node \<Rightarrow> node list" where
  "tag_contents (Tag n a cs) = cs"
| "tag_contents (Text t) = []"

text \<open>
  All tags below a list of nodes, in document order (a tag comes before its own
  descendants). This is the sequence every \<^verbatim>\<open>find\<close> and \<^verbatim>\<open>find_all\<close> walks.
\<close>

fun tags_of :: "node \<Rightarrow> node list" where
  "tags_of (Text t) = []"
| "tags_of (Tag n a cs) = Tag n a cs # concat (map tags_of cs)"

definition descendants :: "node list \<Rightarrow> node list" where
  "descendants ns = concat (map tags_of ns)"

text \<open>
  \<^verbatim>\<open>find_all(names)\<close>: the tags whose name is one of the accepted spellings;
  \<^verbatim>\<open>find_all()\<close> with no name keeps every tag. \<^verbatim>\<open>find\<close> is the first hit or
  \<^verbatim>\<open>None\<close>.
\<close>

definition find_all :: "string list \<Rightarrow> node list \<Rightarrow> node list" where
  "find_all names ns = filter (\<lambda>t. tag_name t \<in> set names) (descendants ns)"

definition find_all_tags :: "node list \<Rightarrow> node list" where
  "find_all_tags ns = descendants ns"

definition find_first :: "string list \<Rightarrow> node list \<Rightarrow> node option" where
  "find_first names ns = (case find_all names ns of [] \<Rightarrow> None | t # ts \<Rightarrow> Some t)"

text \<open>\<^verbatim>\<open>tag.get(k)\<close> is \<^verbatim>\<open>None\<close> on a missing attribute; \<^verbatim>\<open>tag[k]\<close> raises.\<close>

datatype error =
    KeyError string
  | AttributeError string
  | FiletypeNotRecognised
  | MissingAttribute string
  | FormatError string "string option"

definition attr_get :: "node \<Rightarrow> string \<Rightarrow> string option" where
  "attr_get s k = map_of (tag_attrs s) k"

definition attr_item :: "node \<Rightarrow> string \<Rightarrow> error + string" where
  "attr_item s k = (case map_of (tag_attrs s) k of None \<Rightarrow> Inl (KeyError k) | Some v \<Rightarrow> Inr v)"

section \<open>Document classification\<close>

datatype filetype = FILETYPE_IXBRL | FILETYPE_XBRL

text \<open>
  \<^verbatim>\<open>IXBRL._get_parser\<close>: a tag is truthy whenever it was found, so the two tests are
  tests for \<^verbatim>\<open>None\<close>. The \<^verbatim>\<open>raise_on_error\<close> flag is only passed on to the parser
  that is built; it plays no part in the choice.
\<close>

definition get_parser :: "bool \<Rightarrow> soup \<Rightarrow> error + filetype" where
  "get_parser raise_on_error sp =
     (if find_first [''html''] sp \<noteq> None then Inr FILETYPE_IXBRL
      else if find_first [''xbrl''] sp \<noteq> None then Inr FILETYPE_XBRL
      else Inl FiletypeNotRecognised)"

subsection \<open>Text and strings\<close>

text \<open>\<^verbatim>\<open>tag.text\<close> is every piece of text below the tag, joined in document order.\<close>

fun text_of :: "node \<Rightarrow> string" where
  "text_of (Text t) = t"
| "text_of (Tag n a cs) = concat (map text_of cs)"

text \<open>
  \<^verbatim>\<open>str.strip()\<close> removes Python's whitespace characters from both ends: tab, line
  feed, vertical tab, form feed, carriage return, the four separators 0x1C..0x1F and the
  space.
\<close>

definition is_space :: "char \<Rightarrow> bool" where
  "is_space c \<longleftrightarrow>
     c \<in> set [CHR 0x09, CHR 0x0A, CHR 0x0B, CHR 0x0C, CHR 0x0D,
              CHR 0x1C, CHR 0x1D, CHR 0x1E, CHR 0x1F, CHR 0x20]"

definition strip :: "string \<Rightarrow> string" where
  "strip s = rev (dropWhile is_space (rev (dropWhile is_space s)))"

text \<open>\<^verbatim>\<open>s.replace("\n", "")\<close>\<close>

definition remove_newlines :: "string \<Rightarrow> string" where
  "remove_newlines s = filter (\<lambda>c. c \<noteq> CHR 0x0A) s"

text \<open>\<^verbatim>\<open>s.split(" ")\<close>: a separator always cuts, so the result is never empty.\<close>

fun split_on :: "char \<Rightarrow> string \<Rightarrow> string list" where
  "split_on c [] = [[]]"
| "split_on c (x # xs) =
     (if x = c then [] # split_on c xs
      else (case split_on c xs of [] \<Rightarrow> [[x]] | w # ws \<Rightarrow> (x # w) # ws))"

text \<open>\<^verbatim>\<open>" ".join(xs)\<close>\<close>

fun join_space :: "string list \<Rightarrow> string" where
  "join_space [] = []"
| "join_space [x] = x"
| "join_space (x # y # ys) = x @ '' '' @ join_space (y # ys)"

definition startswith :: "string \<Rightarrow> string \<Rightarrow> bool" where
  "startswith s pre \<longleftrightarrow> take (length pre) s = pre"

text \<open>A Python value is truthy unless it is \<^verbatim>\<open>None\<close> or empty.\<close>

definition truthy :: "string option \<Rightarrow> bool" where
  "truthy v = (case v of None \<Rightarrow> False | Some x \<Rightarrow> x \<noteq> [])"

section \<open>Python values\<close>

text \<open>
  The parser stores values of several Python types in one slot: a fact's context is an
  \<^verbatim>\<open>ixbrlContext\<close> object or a plain string, a unit is a string or \<^verbatim>\<open>None\<close>, a table
  cell may hold anything. The type parameter is the class of context objects.
\<close>

datatype 'c pyval =
    PNone
  | PStr string
  | PNum rat
  | PList "'c pyval list"
  | PDict "(string \<times> 'c pyval) list"
  | PCtx 'c

text \<open>\<^verbatim>\<open>self.contexts.get(ref, ref)\<close> and \<^verbatim>\<open>self.units.get(ref, ref)\<close>\<close>

definition get_context :: "(string \<rightharpoonup> 'c) \<Rightarrow> string \<Rightarrow> 'c pyval" where
  "get_context cs ref = (case cs ref of Some c \<Rightarrow> PCtx c | None \<Rightarrow> PStr ref)"

definition get_unit :: "(string \<rightharpoonup> string option) \<Rightarrow> string \<Rightarrow> 'c pyval" where
  "get_unit us ref =
     (case us ref of Some (Some m) \<Rightarrow> PStr m | Some None \<Rightarrow> PNone | None \<Rightarrow> PStr ref)"

section \<open>The parser object\<close>

text \<open>
  The attributes of \<^verbatim>\<open>IXBRLParser\<close> and its subclass \<^verbatim>\<open>XBRLParser\<close>. The class of
  the object is the \<open>filetype\<close> field. The three type parameters are the classes of
  \<^verbatim>\<open>components.py\<close> (contexts, non-numeric facts, numeric facts), which the parser only
  constructs and stores. An attribute that Python has not assigned yet is shown here with
  an empty value.
\<close>

record ('c, 'n, 'f) parser =
  filetype :: filetype
  soup :: soup
  raise_on_error :: bool
  errors :: "(error \<times> node) list"
  schema :: "string option"
  namespaces :: "string \<rightharpoonup> string list"
  contexts :: "string \<rightharpoonup> 'c"
  units :: "string \<rightharpoonup> string option"
  nonnumeric :: "'n list"
  numeric :: "'f list"

definition parser_init :: "filetype \<Rightarrow> soup \<Rightarrow> bool \<Rightarrow> ('c, 'n, 'f) parser" where
  "parser_init ft sp roe =
     \<lparr>filetype = ft, soup = sp, raise_on_error = roe, errors = [], schema = None,
      namespaces = Map.empty, contexts = Map.empty, units = Map.empty,
      nonnumeric = [], numeric = []\<rparr>"

definition root_element :: "filetype \<Rightarrow> string" where
  "root_element ft = (case ft of FILETYPE_IXBRL \<Rightarrow> ''html'' | FILETYPE_XBRL \<Rightarrow> ''xbrl'')"

text \<open>
  A method either returns or raises; in both cases the object keeps whatever was
  assigned to it before.
\<close>

datatype 's outcome = Returned 's | Raised error 's

fun and_then :: "'s outcome \<Rightarrow> ('s \<Rightarrow> 's outcome) \<Rightarrow> 's outcome" where
  "and_then (Returned s) f = f s"
| "and_then (Raised e s) f = Raised e s"

subsection \<open>Schema reference and namespaces\<close>

definition namespace_step ::
  "string \<times> string \<Rightarrow> (string \<rightharpoonup> string list) \<Rightarrow> (string \<rightharpoonup> string list)" where
  "namespace_step kv m =
     (if startswith (fst kv) ''xmlns'' \<or> CHR '':'' \<in> set (fst kv)
      then m(fst kv \<mapsto> split_on CHR '' '' (snd kv)) else m)"

definition get_schema :: "('c, 'n, 'f) parser \<Rightarrow> ('c, 'n, 'f) parser outcome" where
  "get_schema p =
     (case find_first [''link:schemaRef'', ''schemaRef''] (soup p) of
        None \<Rightarrow> Raised (AttributeError ''get'') p
      | Some t \<Rightarrow>
          (let p1 = p\<lparr>schema := attr_get t ''xlink:href'', namespaces := Map.empty\<rparr> in
           case find_first [root_element (filetype p)] (soup p) of
             None \<Rightarrow> Raised (AttributeError ''attrs'') p1
           | Some r \<Rightarrow>
               Returned (p1\<lparr>namespaces := fold namespace_step (tag_attrs r) Map.empty\<rparr>)))"

subsection \<open>Contexts\<close>

definition get_context_elements :: "('c, 'n, 'f) parser \<Rightarrow> error + node list" where
  "get_context_elements p =
     (case filetype p of
        FILETYPE_IXBRL \<Rightarrow>
          (case find_first [''ix:resources'', ''resources''] (soup p) of
             None \<Rightarrow> Inl (AttributeError ''find_all'')
           | Some r \<Rightarrow> Inr (find_all [''xbrli:context'', ''context''] (tag_contents r)))
      | FILETYPE_XBRL \<Rightarrow> Inr (find_all [''xbrli:context'', ''context''] (soup p)))"

text \<open>
  The keyword arguments handed to \<^verbatim>\<open>ixbrlContext\<close>. A segment member is the dictionary
  \<^verbatim>\<open>{"tag": x.name, "value": x.text.strip(), **x.attrs}\<close>, in which an attribute wins
  over the two keys written first.
\<close>

record context_kwargs =
  kw_id :: string
  kw_scheme :: "string option"
  kw_identifier :: "string option"
  kw_segments :: "(string \<rightharpoonup> string) list option"
  kw_instant :: "string option"
  kw_startdate :: "string option"
  kw_enddate :: "string option"

definition segment_dict :: "node \<Rightarrow> (string \<rightharpoonup> string)" where
  "segment_dict x =
     [''tag'' \<mapsto> tag_name x, ''value'' \<mapsto> strip (text_of x)] ++ map_of (tag_attrs x)"

definition child_text :: "string list \<Rightarrow> node \<Rightarrow> string option" where
  "child_text names s = map_option (\<lambda>t. strip (text_of t)) (find_first names (tag_contents s))"

definition context_args :: "node \<Rightarrow> error + context_kwargs" where
  "context_args s =
     (case attr_item s ''id'' of
        Inl e \<Rightarrow> Inl e
      | Inr i \<Rightarrow>
          (case (case find_first [''xbrli:identifier'', ''identifier''] (tag_contents s) of
                   None \<Rightarrow> Inr None
                 | Some t \<Rightarrow> map_sum id (\<lambda>v. Some (strip v)) (attr_item t ''scheme'')) of
             Inl e \<Rightarrow> Inl e
           | Inr sch \<Rightarrow>
               Inr \<lparr>kw_id = i,
                    kw_scheme = sch,
                    kw_identifier = child_text [''xbrli:identifier'', ''identifier''] s,
                    kw_segments =
                      map_option (\<lambda>g. map segment_dict (find_all_tags (tag_contents g)))
                        (find_first [''xbrli:segment'', ''segment''] (tag_contents s)),
                    kw_instant = child_text [''xbrli:instant'', ''instant''] s,
                    kw_startdate = child_text [''xbrli:startDate'', ''startDate''] s,
                    kw_enddate = child_text [''xbrli:endDate'', ''endDate''] s\<rparr>))"

text \<open>
  One turn of the loop of \<^verbatim>\<open>_get_contexts\<close>: the arguments are computed, the context
  is constructed, and only then is it stored under \<^verbatim>\<open>s["id"]\<close>. Nothing here catches an
  exception.
\<close>

definition build_context :: "(context_kwargs \<Rightarrow> error + 'c) \<Rightarrow> node \<Rightarrow> error + string \<times> 'c" where
  "build_context mk s =
     (case context_args s of
        Inl e \<Rightarrow> Inl e
      | Inr a \<Rightarrow>
          (case mk a of
             Inl e \<Rightarrow> Inl e
           | Inr c \<Rightarrow> map_sum id (\<lambda>i. (i, c)) (attr_item s ''id'')))"

fun contexts_loop ::
  "(context_kwargs \<Rightarrow> error + 'c) \<Rightarrow> node list \<Rightarrow> ('c, 'n, 'f) parser \<Rightarrow> ('c, 'n, 'f) parser outcome" where
  "contexts_loop mk [] p = Returned p"
| "contexts_loop mk (s # ss) p =
     (case build_context mk s of
        Inl e \<Rightarrow> Raised e p
      | Inr (i, c) \<Rightarrow> contexts_loop mk ss (p\<lparr>contexts := (contexts p)(i \<mapsto> c)\<rparr>))"

definition get_contexts ::
  "(context_kwargs \<Rightarrow> error + 'c) \<Rightarrow> ('c, 'n, 'f) parser \<Rightarrow> ('c, 'n, 'f) parser outcome" where
  "get_contexts mk p =
     (let p0 = p\<lparr>contexts := Map.empty\<rparr> in
      case get_context_elements p0 of
        Inl e \<Rightarrow> Raised e p0
      | Inr ss \<Rightarrow> contexts_loop mk ss p0)"

subsection \<open>Units\<close>

definition get_unit_elements :: "('c, 'n, 'f) parser \<Rightarrow> error + node list" where
  "get_unit_elements p =
     (case filetype p of
        FILETYPE_IXBRL \<Rightarrow>
          (case find_first [''ix:resources'', ''resources''] (soup p) of
             None \<Rightarrow> Inl (AttributeError ''find_all'')
           | Some r \<Rightarrow> Inr (find_all [''xbrli:unit'', ''unit''] (tag_contents r)))
      | FILETYPE_XBRL \<Rightarrow> Inr (find_all [''xbrli:unit'', ''unit''] (soup p)))"

definition unit_value :: "node \<Rightarrow> string option" where
  "unit_value s = child_text [''xbrli:measure'', ''measure''] s"

fun units_loop :: "node list \<Rightarrow> ('c, 'n, 'f) parser \<Rightarrow> ('c, 'n, 'f) parser outcome" where
  "units_loop [] p = Returned p"
| "units_loop (s # ss) p =
     (case attr_item s ''id'' of
        Inl e \<Rightarrow> Raised e p
      | Inr i \<Rightarrow> units_loop ss (p\<lparr>units := (units p)(i \<mapsto> unit_value s)\<rparr>))"

definition get_units :: "('c, 'n, 'f) parser \<Rightarrow> ('c, 'n, 'f) parser outcome" where
  "get_units p =
     (let p0 = p\<lparr>units := Map.empty\<rparr> in
      case get_unit_elements p0 of
        Inl e \<Rightarrow> Raised e p0
      | Inr ss \<Rightarrow> units_loop ss p0)"

subsection \<open>Facts\<close>

text \<open>
  The keyword arguments of \<^verbatim>\<open>ixbrlNonNumeric\<close>, and the single dictionary handed to
  \<^verbatim>\<open>ixbrlNumeric\<close>. In the dictionary the tag's attributes are merged last
  (\<^verbatim>\<open>**s.attrs\<close>), so an attribute wins over a key written before it.
\<close>

record 'c nonnumeric_kwargs =
  nkw_context :: "'c pyval"
  nkw_name :: string
  nkw_format :: "string option"
  nkw_value :: string

type_synonym 'c element = "string \<rightharpoonup> 'c pyval"

definition attrs_dict :: "node \<Rightarrow> 'c element" where
  "attrs_dict s = map_of (map (\<lambda>kv. (fst kv, PStr (snd kv))) (tag_attrs s))"

text \<open>The inline grammar: \<^verbatim>\<open>IXBRLParser._get_nonnumeric\<close> and \<^verbatim>\<open>_get_numeric\<close>.\<close>

definition ix_nonnumeric_element ::
  "('c, 'n, 'f) parser \<Rightarrow> node \<Rightarrow> error + 'c nonnumeric_kwargs" where
  "ix_nonnumeric_element p s =
     (case attr_item s ''contextRef'' of
        Inl e \<Rightarrow> Inl e
      | Inr r \<Rightarrow>
          (case attr_item s ''name'' of
             Inl e \<Rightarrow> Inl e
           | Inr n \<Rightarrow>
               Inr \<lparr>nkw_context = get_context (contexts p) r,
                    nkw_name = n,
                    nkw_format = attr_get s ''format'',
                    nkw_value = remove_newlines (strip (text_of s))\<rparr>))"

definition ix_numeric_element :: "('c, 'n, 'f) parser \<Rightarrow> node \<Rightarrow> error + 'c element" where
  "ix_numeric_element p s =
     (case attr_item s ''contextRef'' of
        Inl e \<Rightarrow> Inl e
      | Inr r \<Rightarrow>
          (case attr_item s ''unitRef'' of
             Inl e \<Rightarrow> Inl e
           | Inr u \<Rightarrow>
               Inr ([''text'' \<mapsto> PStr (text_of s),
                     ''context'' \<mapsto> get_context (contexts p) r,
                     ''unit'' \<mapsto> get_unit (units p) u] ++ attrs_dict s)))"

text \<open>
  The bare grammar: \<^verbatim>\<open>XBRLParser\<close> walks every tag below the root and skips the ones
  that are not candidates. The name is the tag's own name.
\<close>

definition get_elements :: "('c, 'n, 'f) parser \<Rightarrow> error + node list" where
  "get_elements p =
     (case find_first [root_element (filetype p)] (soup p) of
        None \<Rightarrow> Inl (AttributeError ''find_all'')
      | Some r \<Rightarrow> Inr (find_all_tags (tag_contents r)))"

definition x_numeric_skip :: "node \<Rightarrow> bool" where
  "x_numeric_skip s \<longleftrightarrow>
     \<not> truthy (attr_get s ''contextRef'') \<or> \<not> truthy (attr_get s ''unitRef'')"

definition x_nonnumeric_skip :: "node \<Rightarrow> bool" where
  "x_nonnumeric_skip s \<longleftrightarrow>
     \<not> truthy (attr_get s ''contextRef'') \<or> truthy (attr_get s ''unitRef'')"

definition x_nonnumeric_element ::
  "('c, 'n, 'f) parser \<Rightarrow> node \<Rightarrow> error + 'c nonnumeric_kwargs" where
  "x_nonnumeric_element p s =
     (case attr_item s ''contextRef'' of
        Inl e \<Rightarrow> Inl e
      | Inr r \<Rightarrow>
          Inr \<lparr>nkw_context = get_context (contexts p) r,
               nkw_name = tag_name s,
               nkw_format = attr_get s ''format'',
               nkw_value = remove_newlines (strip (text_of s))\<rparr>)"

definition x_numeric_element :: "('c, 'n, 'f) parser \<Rightarrow> node \<Rightarrow> error + 'c element" where
  "x_numeric_element p s =
     (case attr_item s ''contextRef'' of
        Inl e \<Rightarrow> Inl e
      | Inr r \<Rightarrow>
          (case attr_item s ''unitRef'' of
             Inl e \<Rightarrow> Inl e
           | Inr u \<Rightarrow>
               Inr ([''name'' \<mapsto> PStr (tag_name s),
                     ''text'' \<mapsto> PStr (text_of s),
                     ''context'' \<mapsto> get_context (contexts p) r,
                     ''unit'' \<mapsto> get_unit (units p) u] ++ attrs_dict s)))"

text \<open>
  The loop shared by the four methods. The dictionary is built before the \<^verbatim>\<open>try\<close>;
  only the call of the constructor and the \<^verbatim>\<open>append\<close> stand inside it. An exception
  caught there is recorded with its tag and raised again when \<^verbatim>\<open>raise_on_error\<close> is set.
\<close>

fun nonnumeric_loop ::
  "('a \<Rightarrow> error + 'n) \<Rightarrow> (node \<Rightarrow> bool) \<Rightarrow> (('c, 'n, 'f) parser \<Rightarrow> node \<Rightarrow> error + 'a) \<Rightarrow>
   node list \<Rightarrow> ('c, 'n, 'f) parser \<Rightarrow> ('c, 'n, 'f) parser outcome" where
  "nonnumeric_loop mk skip build [] p = Returned p"
| "nonnumeric_loop mk skip build (s # ss) p =
     (if skip s then nonnumeric_loop mk skip build ss p
      else
        (case build p s of
           Inl e \<Rightarrow> Raised e p
         | Inr el \<Rightarrow>
             (case mk el of
                Inr f \<Rightarrow> nonnumeric_loop mk skip build ss (p\<lparr>nonnumeric := nonnumeric p @ [f]\<rparr>)
              | Inl e \<Rightarrow>
                  (let p' = p\<lparr>errors := errors p @ [(e, s)]\<rparr> in
                   if raise_on_error p' then Raised e p'
                   else nonnumeric_loop mk skip build ss p'))))"

fun numeric_loop ::
  "('a \<Rightarrow> error + 'f) \<Rightarrow> (node \<Rightarrow> bool) \<Rightarrow> (('c, 'n, 'f) parser \<Rightarrow> node \<Rightarrow> error + 'a) \<Rightarrow>
   node list \<Rightarrow> ('c, 'n, 'f) parser \<Rightarrow> ('c, 'n, 'f) parser outcome" where
  "numeric_loop mk skip build [] p = Returned p"
| "numeric_loop mk skip build (s # ss) p =
     (if skip s then numeric_loop mk skip build ss p
      else
        (case build p s of
           Inl e \<Rightarrow> Raised e p
         | Inr el \<Rightarrow>
             (case mk el of
                Inr f \<Rightarrow> numeric_loop mk skip build ss (p\<lparr>numeric := numeric p @ [f]\<rparr>)
              | Inl e \<Rightarrow>
                  (let p' = p\<lparr>errors := errors p @ [(e, s)]\<rparr> in
                   if raise_on_error p' then Raised e p'
                   else numeric_loop mk skip build ss p'))))"

definition get_nonnumeric ::
  "('c nonnumeric_kwargs \<Rightarrow> error + 'n) \<Rightarrow> ('c, 'n, 'f) parser \<Rightarrow> ('c, 'n, 'f) parser outcome" where
  "get_nonnumeric mk p =
     (let p0 = p\<lparr>nonnumeric := []\<rparr> in
      case filetype p of
        FILETYPE_IXBRL \<Rightarrow>
          nonnumeric_loop mk (\<lambda>s. False) ix_nonnumeric_element
            (find_all [''nonNumeric''] (soup p0)) p0
      | FILETYPE_XBRL \<Rightarrow>
          (case get_elements p0 of
             Inl e \<Rightarrow> Raised e p0
           | Inr ss \<Rightarrow> nonnumeric_loop mk x_nonnumeric_skip x_nonnumeric_element ss p0))"

definition get_numeric ::
  "('c element \<Rightarrow> error + 'f) \<Rightarrow> ('c, 'n, 'f) parser \<Rightarrow> ('c, 'n, 'f) parser outcome" where
  "get_numeric mk p =
     (let p0 = p\<lparr>numeric := []\<rparr> in
      case filetype p of
        FILETYPE_IXBRL \<Rightarrow>
          numeric_loop mk (\<lambda>s. False) ix_numeric_element
            (find_all [''nonFraction''] (soup p0)) p0
      | FILETYPE_XBRL \<Rightarrow>
          (case get_elements p0 of
             Inl e \<Rightarrow> Raised e p0
           | Inr ss \<Rightarrow> numeric_loop mk x_numeric_skip x_numeric_element ss p0))"

section \<open>The document object\<close>

text \<open>
  \<^verbatim>\<open>IXBRL.__init__\<close>: classify, then run the five extraction methods in their fixed
  order. An exception leaves the method chain at once. When classification fails there
  is no parser at all.
\<close>

definition IXBRL_init ::
  "(context_kwargs \<Rightarrow> error + 'c) \<Rightarrow> ('c nonnumeric_kwargs \<Rightarrow> error + 'n) \<Rightarrow>
   ('c element \<Rightarrow> error + 'f) \<Rightarrow> soup \<Rightarrow> bool \<Rightarrow> error + ('c, 'n, 'f) parser outcome" where
  "IXBRL_init mkc mkn mkf sp roe =
     (case get_parser roe sp of
        Inl e \<Rightarrow> Inl e
      | Inr ft \<Rightarrow>
          Inr (and_then (and_then (and_then (and_then
                 (get_schema (parser_init ft sp roe))
                 (get_contexts mkc)) get_units) (get_nonnumeric mkn)) (get_numeric mkf)))"

section \<open>Components\<close>

text \<open>
  Modelled from the spec: the module \<^verbatim>\<open>ixbrlparse/components.py\<close> with the classes
  \<^verbatim>\<open>ixbrlContext\<close>, \<^verbatim>\<open>ixbrlNonNumeric\<close> and \<^verbatim>\<open>ixbrlNumeric\<close> is not among the
  sources; \<^verbatim>\<open>core.py\<close> imports it. Everything in this section follows the data model
  and the component design of the specification. The field names are the attributes that
  \<^verbatim>\<open>core.py\<close> and the tests read from these objects.
\<close>

text \<open>
  Modelled from the spec: a Context holds its id, the entity's scheme and identifier, the
  period and the ordered segment members. The period is kept in the three optional
  fields that \<^verbatim>\<open>to_table\<close> reads. The type parameter is the type of dates, and the date
  reader is a parameter; a date that cannot be read leaves its field null and the context
  is kept.
\<close>

record 'd ixbrlContext =
  ctx_id :: string
  entity_scheme :: "string option"
  entity_identifier :: "string option"
  segments :: "(string \<rightharpoonup> string) list option"
  instant :: "'d option"
  startdate :: "'d option"
  enddate :: "'d option"

text \<open>Modelled from the spec: the constructor of \<^verbatim>\<open>ixbrlContext\<close>.\<close>

definition ixbrlContext_init ::
  "(string \<Rightarrow> 'd option) \<Rightarrow> context_kwargs \<Rightarrow> error + 'd ixbrlContext" where
  "ixbrlContext_init parse_date kw =
     Inr \<lparr>ctx_id = kw_id kw,
          entity_scheme = kw_scheme kw,
          entity_identifier = kw_identifier kw,
          segments = kw_segments kw,
          instant = Option.bind (kw_instant kw) parse_date,
          startdate = Option.bind (kw_startdate kw) parse_date,
          enddate = Option.bind (kw_enddate kw) parse_date\<rparr>"

text \<open>
  Modelled from the spec: a NonNumericFact holds namespace prefix, local name, context
  reference, optional format code and text value. The name is cut at its first colon; a
  name without a prefix gets the prefix \<open>unknown\<close>, as the tests expect of the XML
  account.
\<close>

record 'c ixbrlNonNumeric =
  nn_schema :: string
  nn_name :: string
  nn_context :: "'c pyval"
  nn_format :: "string option"
  nn_value :: string

definition split_name :: "string \<Rightarrow> string \<times> string" where
  "split_name n =
     (if CHR '':'' \<in> set n
      then (takeWhile (\<lambda>c. c \<noteq> CHR '':'') n, tl (dropWhile (\<lambda>c. c \<noteq> CHR '':'') n))
      else (''unknown'', n))"

text \<open>Modelled from the spec: the constructor of \<^verbatim>\<open>ixbrlNonNumeric\<close>.\<close>

definition ixbrlNonNumeric_init :: "'c nonnumeric_kwargs \<Rightarrow> error + 'c ixbrlNonNumeric" where
  "ixbrlNonNumeric_init kw =
     Inr \<lparr>nn_schema = fst (split_name (nkw_name kw)),
          nn_name = snd (split_name (nkw_name kw)),
          nn_context = nkw_context kw,
          nn_format = nkw_format kw,
          nn_value = nkw_value kw\<rparr>"

subsection \<open>The numeric normalizer\<close>

text \<open>
  Modelled from the spec: the registry of numeric transformation rules is closed, but
  the specification names the families of rules and not the format codes. The registry
  is therefore a parameter that sends a format code (or the absence of one) to its
  family, and an unrecognised code to nothing.
\<close>

datatype convention =
    FixedZero
  | DotDecimalCommaGroup
  | CommaDecimalDotGroup
  | SpaceGroupDotDecimal
  | NoSeparators

type_synonym registry = "string option \<Rightarrow> convention option"

fun group_char :: "convention \<Rightarrow> char option" where
  "group_char DotDecimalCommaGroup = Some CHR '',''"
| "group_char CommaDecimalDotGroup = Some CHR ''.''"
| "group_char SpaceGroupDotDecimal = Some CHR '' ''"
| "group_char NoSeparators = None"
| "group_char FixedZero = None"

fun decimal_char :: "convention \<Rightarrow> char option" where
  "decimal_char DotDecimalCommaGroup = Some CHR ''.''"
| "decimal_char CommaDecimalDotGroup = Some CHR '',''"
| "decimal_char SpaceGroupDotDecimal = Some CHR ''.''"
| "decimal_char NoSeparators = None"
| "decimal_char FixedZero = None"

definition is_digit :: "char \<Rightarrow> bool" where
  "is_digit c \<longleftrightarrow> c \<in> set ''0123456789''"

definition digit_val :: "char \<Rightarrow> nat" where
  "digit_val c = of_char c - 48"

definition digits_value :: "string \<Rightarrow> nat" where
  "digits_value ds = foldl (\<lambda>n c. 10 * n + digit_val c) 0 ds"

text \<open>
  Modelled from the spec: a non-negative decimal magnitude is a run of digits, with at
  most one decimal marker where the convention has one. Anything else does not parse.
\<close>

definition parse_magnitude :: "char option \<Rightarrow> string \<Rightarrow> rat option" where
  "parse_magnitude dec t =
     (let ip = takeWhile (\<lambda>c. Some c \<noteq> dec) t;
          fp = drop 1 (dropWhile (\<lambda>c. Some c \<noteq> dec) t)
      in if ip @ fp \<noteq> [] \<and> list_all is_digit ip \<and> list_all is_digit fp
         then Some (of_nat (digits_value ip) + of_nat (digits_value fp) / 10 ^ length fp)
         else None)"

text \<open>Modelled from the spec: steps 1 to 3 of the normalizer, the unsigned magnitude.\<close>

definition magnitude :: "registry \<Rightarrow> string \<Rightarrow> string option \<Rightarrow> error + rat" where
  "magnitude reg raw fmt =
     (let t = remove_newlines (strip raw) in
      case reg fmt of
        None \<Rightarrow> Inl (FormatError raw fmt)
      | Some FixedZero \<Rightarrow> Inr 0
      | Some cv \<Rightarrow>
          (case parse_magnitude (decimal_char cv) (filter (\<lambda>c. Some c \<noteq> group_char cv) t) of
             None \<Rightarrow> Inl (FormatError raw fmt)
           | Some m \<Rightarrow> Inr m))"

text \<open>Modelled from the spec: step 4, the sign marker, and step 5, the scale.\<close>

definition apply_sign :: "string \<Rightarrow> rat \<Rightarrow> rat" where
  "apply_sign sign m = (if sign = ''-'' then - m else m)"

definition apply_scale :: "int \<Rightarrow> rat \<Rightarrow> rat" where
  "apply_scale scale v = (if 0 \<le> scale then v * 10 ^ nat scale else v / 10 ^ nat (- scale))"

text \<open>
  Modelled from the spec: the normalizer, a function of raw text, format code, sign
  marker and scale. Numbers are exact rationals here, so every result is finite and
  step 6 has nothing left to reject.
\<close>

definition normalize :: "registry \<Rightarrow> string \<Rightarrow> string option \<Rightarrow> string \<Rightarrow> int \<Rightarrow> error + rat" where
  "normalize reg raw fmt sign scale =
     map_sum id (\<lambda>m. apply_scale scale (apply_sign sign m)) (magnitude reg raw fmt)"

subsection \<open>Numeric facts\<close>

text \<open>
  Modelled from the spec: a NumericFact holds namespace prefix, local name, context
  reference, unit reference, raw text, optional format code, sign marker, scale
  (default 0), optional decimals and the derived value.
\<close>

record 'c ixbrlNumeric =
  num_schema :: string
  num_name :: string
  num_context :: "'c pyval"
  num_unit :: "'c pyval"
  num_text :: string
  num_format :: "string option"
  num_sign :: string
  num_scale :: int
  num_decimals :: "string option"
  num_value :: rat

definition str_get :: "'c element \<Rightarrow> string \<Rightarrow> string option" where
  "str_get el k = (case el k of Some (PStr v) \<Rightarrow> Some v | _ \<Rightarrow> None)"

definition parse_int :: "string \<Rightarrow> int option" where
  "parse_int t =
     (case t of
        [] \<Rightarrow> None
      | c # r \<Rightarrow>
          if c = CHR ''-''
          then (if r \<noteq> [] \<and> list_all is_digit r then Some (- int (digits_value r)) else None)
          else (if list_all is_digit t then Some (int (digits_value t)) else None))"

text \<open>
  Modelled from the spec: the constructor of \<^verbatim>\<open>ixbrlNumeric\<close> reads its fields from
  the merged dictionary. A missing name or reference is a \<open>MissingAttribute\<close> failure; a
  scale that is no integer, or text the normalizer rejects, is a \<open>FormatError\<close>.
\<close>

definition ixbrlNumeric_init :: "registry \<Rightarrow> 'c element \<Rightarrow> error + 'c ixbrlNumeric" where
  "ixbrlNumeric_init reg el =
     (case str_get el ''name'' of
        None \<Rightarrow> Inl (MissingAttribute ''name'')
      | Some n \<Rightarrow>
          (case el ''context'' of
             None \<Rightarrow> Inl (MissingAttribute ''contextRef'')
           | Some c \<Rightarrow>
               (case el ''unit'' of
                  None \<Rightarrow> Inl (MissingAttribute ''unitRef'')
                | Some u \<Rightarrow>
                    (let raw = (case str_get el ''text'' of None \<Rightarrow> [] | Some t \<Rightarrow> t);
                         fmt = str_get el ''format'';
                         sign = (case str_get el ''sign'' of None \<Rightarrow> [] | Some g \<Rightarrow> g)
                     in case (case str_get el ''scale'' of
                                None \<Rightarrow> Some 0 | Some t \<Rightarrow> parse_int t) of
                          None \<Rightarrow> Inl (FormatError raw fmt)
                        | Some sc \<Rightarrow>
                            (case normalize reg raw fmt sign sc of
                               Inl e \<Rightarrow> Inl e
                             | Inr v \<Rightarrow>
                                 Inr \<lparr>num_schema = fst (split_name n),
                                      num_name = snd (split_name n),
                                      num_context = c,
                                      num_unit = u,
                                      num_text = raw,
                                      num_format = fmt,
                                      num_sign = sign,
                                      num_scale = sc,
                                      num_decimals = str_get el ''decimals'',
                                      num_value = v\<rparr>)))))"

section \<open>Tabular export\<close>

text \<open>
  \<^verbatim>\<open>IXBRL.to_table\<close> walks the chosen facts, which may be of both classes, and reads
  \<^verbatim>\<open>schema\<close>, \<^verbatim>\<open>name\<close>, \<^verbatim>\<open>value\<close>, \<^verbatim>\<open>context\<close> and, where the object has one,
  \<^verbatim>\<open>unit\<close>.
\<close>

datatype 'c fact = NonNumericFact "'c ixbrlNonNumeric" | NumericFact "'c ixbrlNumeric"

fun fact_context :: "'c fact \<Rightarrow> 'c pyval" where
  "fact_context (NonNumericFact f) = nn_context f"
| "fact_context (NumericFact f) = num_context f"

fun fact_schema :: "'c fact \<Rightarrow> string" where
  "fact_schema (NonNumericFact f) = nn_schema f"
| "fact_schema (NumericFact f) = num_schema f"

fun fact_name :: "'c fact \<Rightarrow> string" where
  "fact_name (NonNumericFact f) = nn_name f"
| "fact_name (NumericFact f) = num_name f"

fun fact_value :: "'c fact \<Rightarrow> 'c pyval" where
  "fact_value (NonNumericFact f) = PStr (nn_value f)"
| "fact_value (NumericFact f) = PNum (num_value f)"

fun fact_unit :: "'c fact \<Rightarrow> 'c pyval" where
  "fact_unit (NonNumericFact f) = PNone"
| "fact_unit (NumericFact f) = num_unit f"

definition selected ::
  "string \<Rightarrow> ('c, 'c ixbrlNonNumeric, 'c ixbrlNumeric) parser \<Rightarrow> 'c fact list" where
  "selected flds p =
     (if flds = ''nonnumeric'' then map NonNumericFact (nonnumeric p)
      else if flds = ''numeric'' then map NumericFact (numeric p)
      else map NonNumericFact (nonnumeric p) @ map NumericFact (numeric p))"

text \<open>\<^verbatim>\<open>str(i)\<close> for an index, and \<^verbatim>\<open>"{}".format(x)\<close> for a string or \<^verbatim>\<open>None\<close>.\<close>

fun str_nat :: "nat \<Rightarrow> string" where
  "str_nat n =
     (if n < 10 then [''0123456789'' ! n] else str_nat (n div 10) @ [''0123456789'' ! (n mod 10)])"

definition py_format :: "string option \<Rightarrow> string" where
  "py_format v = (case v of None \<Rightarrow> ''None'' | Some t \<Rightarrow> t)"

definition segment_text :: "(string \<rightharpoonup> string) \<Rightarrow> string" where
  "segment_text sg =
     strip ((case sg ''tag'' of None \<Rightarrow> [] | Some t \<Rightarrow> t) @ '' '' @
            py_format (sg ''dimension'') @ '' '' @ py_format (sg ''value''))"

definition segment_columns :: "(string \<rightharpoonup> string) list option \<Rightarrow> (string \<times> 'c pyval) list" where
  "segment_columns sgs =
     (case sgs of
        Some (x # xs) \<Rightarrow>
          map (\<lambda>(i, sg). (''segment:'' @ str_nat i, PStr (segment_text sg))) (enumerate 0 (x # xs))
      | _ \<Rightarrow> [(''segment:0'', PStr [])])"

definition date_cell :: "('d \<Rightarrow> string) \<Rightarrow> 'd option \<Rightarrow> 'c pyval" where
  "date_cell str d = (case d of None \<Rightarrow> PNone | Some x \<Rightarrow> PStr (str x))"

text \<open>
  One turn of the loop. The first thing read is \<^verbatim>\<open>v.context.segments\<close>; when the
  context is not a context object this is where Python raises \<^verbatim>\<open>AttributeError\<close>.
\<close>

definition to_table_row ::
  "('d \<Rightarrow> string) \<Rightarrow>
   ('d ixbrlContext, 'd ixbrlContext ixbrlNonNumeric, 'd ixbrlContext ixbrlNumeric) parser \<Rightarrow>
   'd ixbrlContext fact \<Rightarrow> error + (string \<times> 'd ixbrlContext pyval) list" where
  "to_table_row str p v =
     (case fact_context v of
        PCtx c \<Rightarrow>
          Inr ([(''schema'',
                   PStr (join_space (case namespaces p (''xmlns:'' @ fact_schema v) of
                                       None \<Rightarrow> [fact_schema v] | Some l \<Rightarrow> l))),
                (''name'', PStr (fact_name v)),
                (''value'', fact_value v),
                (''unit'', fact_unit v),
                (''instant'', date_cell str (instant c)),
                (''startdate'', date_cell str (startdate c)),
                (''enddate'', date_cell str (enddate c))]
               @ segment_columns (segments c))
      | _ \<Rightarrow> Inl (AttributeError ''segments''))"

fun table_loop :: "('v \<Rightarrow> error + 'r) \<Rightarrow> 'v list \<Rightarrow> 'r list \<Rightarrow> error + 'r list" where
  "table_loop row [] ret = Inr ret"
| "table_loop row (v # vs) ret =
     (case row v of Inl e \<Rightarrow> Inl e | Inr r \<Rightarrow> table_loop row vs (ret @ [r]))"

definition to_table ::
  "('d \<Rightarrow> string) \<Rightarrow> string \<Rightarrow>
   ('d ixbrlContext, 'd ixbrlContext ixbrlNonNumeric, 'd ixbrlContext ixbrlNumeric) parser \<Rightarrow>
   error + (string \<times> 'd ixbrlContext pyval) list list" where
  "to_table str flds p = table_loop (to_table_row str p) (selected flds p) []"

fun is_scalar :: "'c pyval \<Rightarrow> bool" where
  "is_scalar PNone = True"
| "is_scalar (PStr t) = True"
| "is_scalar (PNum x) = True"
| "is_scalar (PList xs) = False"
| "is_scalar (PDict kvs) = False"
| "is_scalar (PCtx c) = False"

fun state_of :: "'s outcome \<Rightarrow> 's" where
  "state_of (Returned s) = s"
| "state_of (Raised e s) = s"

section \<open>Example documents\<close>

text \<open>
  Small documents on which the theorems below are run. In them dates stay text: the date
  reader is \<open>Some\<close> and a date prints as itself.
\<close>

type_synonym ex_parser =
  "(string ixbrlContext, string ixbrlContext ixbrlNonNumeric, string ixbrlContext ixbrlNumeric) parser"

definition ex_registry :: registry where
  "ex_registry fmt =
     (if fmt = Some ''ixt:numcommadot'' then Some DotDecimalCommaGroup
      else if fmt = Some ''ixt:zerodash'' then Some FixedZero
      else if fmt = None then Some NoSeparators
      else None)"

definition ex_context :: "string \<Rightarrow> string \<Rightarrow> node" where
  "ex_context i d = Tag ''context'' [(''id'', i)] [Tag ''instant'' [] [Text d]]"

definition ex_context_noid :: node where
  "ex_context_noid = Tag ''context'' [] [Tag ''instant'' [] [Text ''2020-12-31'']]"

definition ex_unit :: "string \<Rightarrow> string \<Rightarrow> node" where
  "ex_unit i m = Tag ''unit'' [(''id'', i)] [Tag ''measure'' [] [Text m]]"

text \<open>An inline document whose first context has no id.\<close>

definition ex_doc_noid :: soup where
  "ex_doc_noid =
     [Tag ''html'' []
        [Tag ''resources'' [] [ex_context_noid, ex_context ''c2'' ''2020-12-31'']]]"

text \<open>An inline document with a context without id between two good ones.\<close>

definition ex_doc_noid_middle :: soup where
  "ex_doc_noid_middle =
     [Tag ''html'' []
        [Tag ''resources'' []
           [ex_context ''c1'' ''2019-12-31'', ex_context_noid, ex_context ''c3'' ''2021-12-31'']]]"

text \<open>A bare document that defines the context \<open>c1\<close> twice and the unit \<open>u1\<close> twice.\<close>

definition ex_doc_duplicates :: soup where
  "ex_doc_duplicates =
     [Tag ''xbrl'' []
        [ex_context ''c1'' ''2019-12-31'', ex_context ''c1'' ''2021-12-31'',
         ex_unit ''u1'' ''iso4217:GBP'', ex_unit ''u1'' ''iso4217:USD'']]"

section \<open>Properties\<close>

lemma find_first_None_iff:
  "find_first names ns = None \<longleftrightarrow> (\<forall>t \<in> set (descendants ns). tag_name t \<notin> set names)"
proof -
  have "find_first names ns = None \<longleftrightarrow> find_all names ns = []"
    by (simp add: find_first_def split: list.splits)
  then show ?thesis
    by (simp add: find_all_def filter_empty_conv)
qed

text \<open>
  Claim C5. The classifier looks for the inline root marker first: if any tag of the tree
  is named \<open>html\<close> the inline grammar is chosen, whatever else the tree holds. Failing
  that, a tag named \<open>xbrl\<close> anywhere selects the bare grammar. With neither marker the
  result is the "Filetype not recognised" failure, and this holds for both values of the
  error policy flag.
\<close>

theorem get_parser_classification:
  "get_parser roe sp =
     (if \<exists>t \<in> set (descendants sp). tag_name t = ''html'' then Inr FILETYPE_IXBRL
      else if \<exists>t \<in> set (descendants sp). tag_name t = ''xbrl'' then Inr FILETYPE_XBRL
      else Inl FiletypeNotRecognised)"
proof -
  have h: "find_first [n] sp \<noteq> None \<longleftrightarrow> (\<exists>t \<in> set (descendants sp). tag_name t = n)" for n
    using find_first_None_iff [of "[n]" sp] by auto
  show ?thesis
    unfolding get_parser_def h by simp
qed

subsection \<open>What each loop leaves alone\<close>

lemma contexts_loop_frame:
  "errors (state_of (contexts_loop mk ss p)) = errors p \<and>
   schema (state_of (contexts_loop mk ss p)) = schema p \<and>
   namespaces (state_of (contexts_loop mk ss p)) = namespaces p \<and>
   units (state_of (contexts_loop mk ss p)) = units p \<and>
   nonnumeric (state_of (contexts_loop mk ss p)) = nonnumeric p \<and>
   numeric (state_of (contexts_loop mk ss p)) = numeric p \<and>
   filetype (state_of (contexts_loop mk ss p)) = filetype p \<and>
   soup (state_of (contexts_loop mk ss p)) = soup p \<and>
   raise_on_error (state_of (contexts_loop mk ss p)) = raise_on_error p"
  by (induction ss arbitrary: p) (auto split: sum.splits)

lemma units_loop_frame:
  "errors (state_of (units_loop ss p)) = errors p \<and>
   schema (state_of (units_loop ss p)) = schema p \<and>
   namespaces (state_of (units_loop ss p)) = namespaces p \<and>
   contexts (state_of (units_loop ss p)) = contexts p \<and>
   nonnumeric (state_of (units_loop ss p)) = nonnumeric p \<and>
   numeric (state_of (units_loop ss p)) = numeric p \<and>
   filetype (state_of (units_loop ss p)) = filetype p \<and>
   soup (state_of (units_loop ss p)) = soup p \<and>
   raise_on_error (state_of (units_loop ss p)) = raise_on_error p"
  by (induction ss arbitrary: p) (auto split: sum.splits)

lemma numeric_loop_frame:
  "schema (state_of (numeric_loop mk skip build ss p)) = schema p \<and>
   namespaces (state_of (numeric_loop mk skip build ss p)) = namespaces p \<and>
   contexts (state_of (numeric_loop mk skip build ss p)) = contexts p \<and>
   units (state_of (numeric_loop mk skip build ss p)) = units p \<and>
   nonnumeric (state_of (numeric_loop mk skip build ss p)) = nonnumeric p \<and>
   filetype (state_of (numeric_loop mk skip build ss p)) = filetype p \<and>
   soup (state_of (numeric_loop mk skip build ss p)) = soup p \<and>
   raise_on_error (state_of (numeric_loop mk skip build ss p)) = raise_on_error p"
  by (induction ss arbitrary: p) (auto split: sum.splits simp: Let_def)

lemma nonnumeric_loop_frame:
  "schema (state_of (nonnumeric_loop mk skip build ss p)) = schema p \<and>
   namespaces (state_of (nonnumeric_loop mk skip build ss p)) = namespaces p \<and>
   contexts (state_of (nonnumeric_loop mk skip build ss p)) = contexts p \<and>
   units (state_of (nonnumeric_loop mk skip build ss p)) = units p \<and>
   numeric (state_of (nonnumeric_loop mk skip build ss p)) = numeric p \<and>
   filetype (state_of (nonnumeric_loop mk skip build ss p)) = filetype p \<and>
   soup (state_of (nonnumeric_loop mk skip build ss p)) = soup p \<and>
   raise_on_error (state_of (nonnumeric_loop mk skip build ss p)) = raise_on_error p"
  by (induction ss arbitrary: p) (auto split: sum.splits simp: Let_def)

subsection \<open>The loops step by step\<close>

lemma numeric_loop_filter:
  "numeric_loop mk skip build ss p =
   numeric_loop mk (\<lambda>s. False) build (filter (\<lambda>s. \<not> skip s) ss) p"
  by (induction ss arbitrary: p) (auto split: sum.splits simp: Let_def)

lemma nonnumeric_loop_filter:
  "nonnumeric_loop mk skip build ss p =
   nonnumeric_loop mk (\<lambda>s. False) build (filter (\<lambda>s. \<not> skip s) ss) p"
  by (induction ss arbitrary: p) (auto split: sum.splits simp: Let_def)

lemma build_context_id:
  "build_context mk s = Inr (i, c) \<Longrightarrow> attr_get s ''id'' = Some i"
  by (auto simp: build_context_def attr_item_def attr_get_def split: sum.splits option.splits)

lemma build_context_no_id:
  "attr_get s ''id'' = None \<Longrightarrow> build_context mk s = Inl (KeyError ''id'')"
  by (simp add: build_context_def context_args_def attr_item_def attr_get_def)

lemma contexts_loop_append:
  "contexts_loop mk xs p = Returned r \<Longrightarrow> contexts_loop mk (xs @ ys) p = contexts_loop mk ys r"
  by (induction xs arbitrary: p) (auto split: sum.splits)

lemma contexts_loop_Returned_append:
  "contexts_loop mk (xs @ ys) p = Returned q \<Longrightarrow>
   \<exists>r. contexts_loop mk xs p = Returned r \<and> contexts_loop mk ys r = Returned q"
  by (induction xs arbitrary: p) (auto split: sum.splits)

lemma contexts_loop_keeps:
  "contexts_loop mk ys r = Returned q \<Longrightarrow> \<forall>y \<in> set ys. attr_get y ''id'' \<noteq> Some i \<Longrightarrow>
   contexts q i = contexts r i"
proof (induction ys arbitrary: r)
  case Nil
  then show ?case by simp
next
  case (Cons y ys)
  from Cons.prems(1) obtain j c where b: "build_context mk y = Inr (j, c)"
    and l: "contexts_loop mk ys (r\<lparr>contexts := (contexts r)(j \<mapsto> c)\<rparr>) = Returned q"
    by (auto split: sum.splits)
  from b have "attr_get y ''id'' = Some j" by (rule build_context_id)
  with Cons.prems(2) have "j \<noteq> i" by auto
  moreover from Cons.IH [OF l] Cons.prems(2)
  have "contexts q i = contexts (r\<lparr>contexts := (contexts r)(j \<mapsto> c)\<rparr>) i" by simp
  ultimately show ?case by simp
qed

lemma units_loop_Returned_append:
  "units_loop (xs @ ys) p = Returned q \<Longrightarrow>
   \<exists>r. units_loop xs p = Returned r \<and> units_loop ys r = Returned q"
  by (induction xs arbitrary: p) (auto split: sum.splits)

lemma units_loop_keeps:
  "units_loop ys r = Returned q \<Longrightarrow> \<forall>y \<in> set ys. attr_get y ''id'' \<noteq> Some i \<Longrightarrow>
   units q i = units r i"
proof (induction ys arbitrary: r)
  case Nil
  then show ?case by simp
next
  case (Cons y ys)
  from Cons.prems(1) obtain j where b: "attr_item y ''id'' = Inr j"
    and l: "units_loop ys (r\<lparr>units := (units r)(j \<mapsto> unit_value y)\<rparr>) = Returned q"
    by (auto split: sum.splits)
  from b have "attr_get y ''id'' = Some j"
    by (auto simp: attr_item_def attr_get_def split: option.splits)
  with Cons.prems(2) have "j \<noteq> i" by auto
  moreover from Cons.IH [OF l] Cons.prems(2)
  have "units q i = units (r\<lparr>units := (units r)(j \<mapsto> unit_value y)\<rparr>) i" by simp
  ultimately show ?case by simp
qed

lemma numeric_loop_invariant:
  assumes "\<And>q s el f. build q s = Inr el \<Longrightarrow> mk el = Inr f \<Longrightarrow> P f"
  shows "\<forall>f \<in> set (numeric p). P f \<Longrightarrow>
         \<forall>f \<in> set (numeric (state_of (numeric_loop mk skip build ss p))). P f"
proof (induction ss arbitrary: p)
  case Nil
  then show ?case by simp
next
  case (Cons s ss)
  show ?case
  proof (cases "skip s")
    case True
    with Cons show ?thesis by simp
  next
    case False
    show ?thesis
    proof (cases "build p s")
      case (Inl e)
      with False Cons.prems show ?thesis by simp
    next
      case (Inr el)
      note b = this
      show ?thesis
      proof (cases "mk el")
        case (Inr f)
        with b assms have "P f" by blast
        with Cons.prems have "\<forall>g \<in> set (numeric (p\<lparr>numeric := numeric p @ [f]\<rparr>)). P g" by simp
        from Cons.IH [OF this] show ?thesis using False b Inr by simp
      next
        case (Inl e)
        from Cons.prems have "\<forall>g \<in> set (numeric (p\<lparr>errors := errors p @ [(e, s)]\<rparr>)). P g" by simp
        from Cons.IH [OF this] show ?thesis using False b Inl Cons.prems
          by (simp add: Let_def)
      qed
    qed
  qed
qed

lemma table_loop_rows:
  "table_loop row vs ret = Inr rows \<Longrightarrow>
   \<exists>rs. rows = ret @ rs \<and> list_all2 (\<lambda>v r. row v = Inr r) vs rs"
proof (induction vs arbitrary: ret)
  case Nil
  then show ?case by simp
next
  case (Cons v vs)
  from Cons.prems obtain r where r: "row v = Inr r" and l: "table_loop row vs (ret @ [r]) = Inr rows"
    by (auto split: sum.splits)
  from Cons.IH [OF l] obtain rs where "rows = (ret @ [r]) @ rs" "list_all2 (\<lambda>v r. row v = Inr r) vs rs"
    by blast
  with r show ?case by (intro exI [of _ "r # rs"]) simp
qed

lemma table_loop_fails:
  "v \<in> set vs \<Longrightarrow> row v = Inl e \<Longrightarrow> \<forall>u \<in> set vs. \<forall>e'. row u = Inl e' \<longrightarrow> e' = e \<Longrightarrow>
   table_loop row vs ret = Inl e"
proof (induction vs arbitrary: ret)
  case Nil
  then show ?case by simp
next
  case (Cons u vs)
  show ?case
  proof (cases "row u")
    case (Inl e')
    with Cons.prems(3) have "e' = e" by simp
    with Inl show ?thesis by simp
  next
    case (Inr r)
    with Cons.prems have "v \<in> set vs" by auto
    from Cons.IH [OF this Cons.prems(2)] Cons.prems(3) Inr show ?thesis by simp
  qed
qed

lemma table_loop_total:
  "\<forall>v \<in> set vs. \<exists>r. row v = Inr r \<Longrightarrow> \<exists>rows. table_loop row vs ret = Inr rows"
proof (induction vs arbitrary: ret)
  case Nil
  then show ?case by simp
next
  case (Cons v vs)
  then obtain r where "row v = Inr r" by auto
  with Cons show ?case by simp
qed

subsection \<open>Contexts and units\<close>

lemma get_context_elements_upd [simp]:
  "get_context_elements (p\<lparr>contexts := cs\<rparr>) = get_context_elements p"
  by (simp add: get_context_elements_def split: filetype.splits)

lemma get_unit_elements_upd [simp]:
  "get_unit_elements (p\<lparr>units := us\<rparr>) = get_unit_elements p"
  by (simp add: get_unit_elements_def split: filetype.splits)

lemma contexts_loop_dom:
  "contexts (state_of (contexts_loop mk ss p)) i \<noteq> None \<Longrightarrow>
   contexts p i \<noteq> None \<or> (\<exists>x \<in> set ss. attr_get x ''id'' = Some i)"
proof (induction ss arbitrary: p)
  case Nil
  then show ?case by simp
next
  case (Cons s ss)
  show ?case
  proof (cases "build_context mk s")
    case (Inl e)
    with Cons.prems show ?thesis by simp
  next
    case (Inr jc)
    obtain j c where jc: "jc = (j, c)" by (cases jc)
    with Inr have id: "attr_get s ''id'' = Some j" by (simp add: build_context_id)
    from Cons.prems Inr jc
    have "contexts (state_of (contexts_loop mk ss (p\<lparr>contexts := (contexts p)(j \<mapsto> c)\<rparr>))) i \<noteq> None"
      by simp
    from Cons.IH [OF this] id show ?thesis by (auto split: if_splits)
  qed
qed

lemma contexts_loop_raises:
  "attr_get s ''id'' = None \<Longrightarrow>
   \<exists>e r. contexts_loop mk (pre @ s # post) p = Raised e r \<and>
         (r = state_of (contexts_loop mk pre p)) \<and>
         ((\<exists>r'. contexts_loop mk pre p = Returned r') \<longrightarrow> e = KeyError ''id'')"
proof (induction pre arbitrary: p)
  case Nil
  then show ?case by (simp add: build_context_no_id)
next
  case (Cons x pre)
  show ?case
  proof (cases "build_context mk x")
    case (Inl e)
    then show ?thesis by simp
  next
    case (Inr jc)
    obtain j c where jc: "jc = (j, c)" by (cases jc)
    from Cons.IH [OF Cons.prems, of "p\<lparr>contexts := (contexts p)(j \<mapsto> c)\<rparr>"] Inr jc
    show ?thesis by simp
  qed
qed

end
